theory Spec2Isabelle
  imports Complex_Main "HOL-Library.AList"
begin

section \<open>JavaScript values\<close>

text \<open>
  A JavaScript string is modelled by the list of its code units; the model covers the
  strings whose code units are below 256, one \<^typ>\<open>char\<close> per code unit. A number is an
  IEEE double: \<open>Fin q\<close> is the double whose exact value is \<open>q\<close> (the two zeros are
  not told apart, both are \<open>Fin 0\<close>). An object is the list of its own properties in
  the order \<open>Object.keys\<close> gives them; the keys of an object are distinct.
\<close>

datatype jsnum = NaN | PosInf | NegInf | Fin rat

datatype jsval =
    JUndef
  | JNull
  | JBool bool
  | JNum jsnum
  | JStr string
  | JArr "jsval list"
  | JObj "(string \<times> jsval) list"

datatype js_error =
    CredentialsRequired
  | TypeError
  | RangeError
  | SyntaxError
  | HostError string

fun num_truthy :: "jsnum \<Rightarrow> bool" where
  "num_truthy NaN = False"
| "num_truthy (Fin q) = (q \<noteq> 0)"
| "num_truthy PosInf = True"
| "num_truthy NegInf = True"

text \<open>\<open>ToBoolean\<close>: what \<open>if (v)\<close>, \<open>!v\<close>, \<open>a && b\<close> and \<open>a || b\<close> test.\<close>

fun truthy :: "jsval \<Rightarrow> bool" where
  "truthy JUndef = False"
| "truthy JNull = False"
| "truthy (JBool b) = b"
| "truthy (JNum n) = num_truthy n"
| "truthy (JStr s) = (s \<noteq> [])"
| "truthy (JArr xs) = True"
| "truthy (JObj kvs) = True"

text \<open>The operator \<open>!\<close>.\<close>

definition js_not :: "jsval \<Rightarrow> bool" where
  "js_not v = (\<not> truthy v)"

text \<open>
  Reading a named property \<open>v.k\<close>: a \<open>TypeError\<close> on \<open>null\<close> and \<open>undefined\<close>, the
  own property of an object, and \<open>undefined\<close> otherwise (none of the names the source
  reads is a built-in property of an array, a string, a number or a boolean).
\<close>

fun get_prop :: "jsval \<Rightarrow> string \<Rightarrow> js_error + jsval" where
  "get_prop JUndef k = Inl TypeError"
| "get_prop JNull k = Inl TypeError"
| "get_prop (JObj kvs) k = Inr (case map_of kvs k of None \<Rightarrow> JUndef | Some v \<Rightarrow> v)"
| "get_prop v k = Inr JUndef"

fun isArray :: "jsval \<Rightarrow> bool" where
  "isArray (JArr xs) = True"
| "isArray v = False"

text \<open>\<open>v.length\<close> and \<open>v[0]\<close> of an array (the source reads them of arrays only).\<close>

fun arr_length :: "jsval \<Rightarrow> nat" where
  "arr_length (JArr xs) = length xs"
| "arr_length v = 0"

fun arr_first :: "jsval \<Rightarrow> jsval" where
  "arr_first (JArr (x # xs)) = x"
| "arr_first v = JUndef"

subsection \<open>Strings\<close>

fun starts_with :: "string \<Rightarrow> string \<Rightarrow> bool" where
  "starts_with s [] = True"
| "starts_with [] (p # ps) = False"
| "starts_with (c # cs) (p # ps) = (c = p \<and> starts_with cs ps)"

text \<open>\<open>s.includes(p)\<close>: \<open>p\<close> occurs in \<open>s\<close> as a contiguous run.\<close>

fun str_includes :: "string \<Rightarrow> string \<Rightarrow> bool" where
  "str_includes [] p = (p = [])"
| "str_includes (c # cs) p = (starts_with (c # cs) p \<or> str_includes cs p)"

section \<open>scrapeVesselData: credentials\<close>

text \<open>
  \<open>const { username = process.env.MT_USERNAME, password = process.env.MT_PASSWORD, ... } = options\<close>:
  a default applies to a property that is \<open>undefined\<close> in \<open>options\<close>, and to that
  property alone. An environment variable is a string or is unset.
\<close>

record options =
  opt_username :: jsval
  opt_password :: jsval

record environment =
  MT_USERNAME :: "string option"
  MT_PASSWORD :: "string option"

definition env_value :: "string option \<Rightarrow> jsval" where
  "env_value e = (case e of None \<Rightarrow> JUndef | Some s \<Rightarrow> JStr s)"

definition with_default :: "jsval \<Rightarrow> jsval \<Rightarrow> jsval" where
  "with_default v d = (if v = JUndef then d else v)"

definition username_of :: "options \<Rightarrow> environment \<Rightarrow> jsval" where
  "username_of opts env = with_default (opt_username opts) (env_value (MT_USERNAME env))"

definition password_of :: "options \<Rightarrow> environment \<Rightarrow> jsval" where
  "password_of opts env = with_default (opt_password opts) (env_value (MT_PASSWORD env))"

section \<open>Response Interceptor\<close>

text \<open>
  What the handler of \<open>page.on('response', ...)\<close> reads of a response: its URL, its
  \<open>content-type\<close> header (absent or a string) and what \<open>await response.json()\<close>
  gives (the parsed body, or the error it rejects with).
\<close>

record response =
  url :: string
  content_type :: "string option"
  body :: "js_error + jsval"

definition allow_listed :: "string \<Rightarrow> bool" where
  "allow_listed u =
     (str_includes u ''/api/exportAPI'' \<or>
      str_includes u ''/en/reports'' \<or>
      str_includes u ''/api/exportData'' \<or>
      str_includes u ''/exportJSON'' \<or>
      str_includes u ''/en/vesselDetails'' \<or>
      str_includes u ''/en/ais/details'' \<or>
      str_includes u ''/api/vd'' \<or>
      str_includes u ''/api/exportVessels'')"

text \<open>\<open>v && Array.isArray(v) && v.length > 0\<close>\<close>

definition nonempty_array :: "jsval \<Rightarrow> bool" where
  "nonempty_array v = (truthy v \<and> isArray v \<and> 0 < arr_length v)"

text \<open>\<open>x.imo || x.IMO || x.mmsi || x.MMSI\<close>; reading a property of \<open>null\<close> throws.\<close>

definition has_id :: "jsval \<Rightarrow> js_error + bool" where
  "has_id x =
     (case get_prop x ''imo'' of Inl e \<Rightarrow> Inl e | Inr a \<Rightarrow>
        if truthy a then Inr True else
     (case get_prop x ''IMO'' of Inl e \<Rightarrow> Inl e | Inr b \<Rightarrow>
        if truthy b then Inr True else
     (case get_prop x ''mmsi'' of Inl e \<Rightarrow> Inl e | Inr c \<Rightarrow>
        if truthy c then Inr True else
     (case get_prop x ''MMSI'' of Inl e \<Rightarrow> Inl e | Inr d \<Rightarrow> Inr (truthy d)))))"

text \<open>The test of lines 73 to 76: the vessel-shape predicate, or the error it throws.\<close>

definition vessel_shape :: "jsval \<Rightarrow> js_error + bool" where
  "vessel_shape data =
     (if truthy data then
        (case get_prop data ''data'' of Inl e \<Rightarrow> Inl e | Inr d \<Rightarrow>
           if nonempty_array d then Inr True else
        (case get_prop data ''vessels'' of Inl e \<Rightarrow> Inl e | Inr v \<Rightarrow>
           if nonempty_array v then Inr True else
           if isArray data \<and> 0 < arr_length data then has_id (arr_first data)
           else Inr False))
      else Inr False)"

text \<open>
  The body of the handler's \<open>try\<close> block: the new value of \<open>vesselData\<close>, or the
  error thrown inside the block. \<open>contentType_of\<close> is
  \<open>response.headers()['content-type'] || \<close>\<^verbatim>\<open>''\<close>.
\<close>

definition contentType_of :: "response \<Rightarrow> string" where
  "contentType_of r = (case content_type r of None \<Rightarrow> [] | Some c \<Rightarrow> if c = [] then [] else c)"

definition response_try :: "jsval \<Rightarrow> response \<Rightarrow> js_error + jsval" where
  "response_try vesselData r =
     (let contentType = contentType_of r
      in if str_includes contentType ''application/json'' then
           (case body r of Inl e \<Rightarrow> Inl e | Inr data \<Rightarrow>
             (case vessel_shape data of Inl e \<Rightarrow> Inl e | Inr found \<Rightarrow>
                Inr (if found then data else vesselData)))
         else Inr vesselData)"

text \<open>
  The handler: the \<open>catch\<close> logs the error and leaves \<open>vesselData\<close> as it was. The
  code after \<open>await response.json()\<close> has no further \<open>await\<close>, so it runs in one
  piece; a session is the list of its responses in the order in which their bodies
  arrive.
\<close>

definition on_response :: "jsval \<Rightarrow> response \<Rightarrow> jsval" where
  "on_response vesselData r =
     (if allow_listed (url r) then
        (case response_try vesselData r of Inl e \<Rightarrow> vesselData | Inr v \<Rightarrow> v)
      else vesselData)"

definition intercept :: "response list \<Rightarrow> jsval" where
  "intercept rs = foldl on_response JNull rs"

section \<open>Markup-embedded JSON extractor\<close>

text \<open>\<open>\s\<close> of a regular expression, among the code units below 256.\<close>

definition is_space :: "char \<Rightarrow> bool" where
  "is_space c = (c \<in> set [CHR 0x09, CHR 0x0A, CHR 0x0B, CHR 0x0C, CHR 0x0D, CHR 0x20, CHR 0xA0])"

fun skip_spaces :: "string \<Rightarrow> string" where
  "skip_spaces [] = []"
| "skip_spaces (c # cs) = (if is_space c then skip_spaces cs else c # cs)"

fun strip_prefix :: "string \<Rightarrow> string \<Rightarrow> string option" where
  "strip_prefix [] s = Some s"
| "strip_prefix (p # ps) [] = None"
| "strip_prefix (p # ps) (c # cs) = (if p = c then strip_prefix ps cs else None)"

text \<open>\<open>[^"]+\<close>: the longest run of code units other than the double quote, not empty.\<close>

definition strip_name :: "string \<Rightarrow> string option" where
  "strip_name s =
     (if takeWhile (\<lambda>c. c \<noteq> CHR 0x22) s = [] then None
      else Some (dropWhile (\<lambda>c. c \<noteq> CHR 0x22) s))"

text \<open>
  One of the four patterns, \<open>/"key"\s*:\s*\[\s*\{\s*"([^"]+)"\s*:/\<close>, tried at the
  start of a text: what is left after the match. Every greedy run is followed by a
  code unit the run cannot contain, so the match is found without backtracking.
\<close>

definition match_here :: "string \<Rightarrow> string \<Rightarrow> string option" where
  "match_here key s =
     (case strip_prefix ([CHR 0x22] @ key @ [CHR 0x22]) s of None \<Rightarrow> None | Some s1 \<Rightarrow>
     (case strip_prefix '':'' (skip_spaces s1) of None \<Rightarrow> None | Some s2 \<Rightarrow>
     (case strip_prefix ''['' (skip_spaces s2) of None \<Rightarrow> None | Some s3 \<Rightarrow>
     (case strip_prefix ''{'' (skip_spaces s3) of None \<Rightarrow> None | Some s4 \<Rightarrow>
     (case strip_prefix [CHR 0x22] (skip_spaces s4) of None \<Rightarrow> None | Some s5 \<Rightarrow>
     (case strip_name s5 of None \<Rightarrow> None | Some s6 \<Rightarrow>
     (case strip_prefix [CHR 0x22] s6 of None \<Rightarrow> None | Some s7 \<Rightarrow>
      strip_prefix '':'' (skip_spaces s7))))))))"

text \<open>\<open>html.match(pattern)\<close>: the text of the leftmost match, \<open>match[0]\<close>.\<close>

fun regex_match :: "string \<Rightarrow> string \<Rightarrow> string option" where
  "regex_match key [] = None"
| "regex_match key (c # cs) =
     (case match_here key (c # cs) of
        Some rest \<Rightarrow> Some (take (length (c # cs) - length rest) (c # cs))
      | None \<Rightarrow> regex_match key cs)"

text \<open>\<open>html.indexOf(m)\<close> for a text \<open>m\<close> that occurs in \<open>html\<close>.\<close>

fun index_of :: "string \<Rightarrow> string \<Rightarrow> nat" where
  "index_of [] m = 0"
| "index_of (c # cs) m = (if starts_with (c # cs) m then 0 else Suc (index_of cs m))"

text \<open>
  The loop of lines 340 to 348 from index \<open>i\<close> on, \<open>cs\<close> being \<open>html\<close> from \<open>i\<close>:
  the value of \<open>endPos\<close> after it (\<open>startPos\<close> still, when the loop ends without
  \<open>break\<close>).
\<close>

fun brace_scan :: "string \<Rightarrow> nat \<Rightarrow> nat \<Rightarrow> int \<Rightarrow> nat" where
  "brace_scan [] i startPos bracketCount = startPos"
| "brace_scan (c # cs) i startPos bracketCount =
     (let b1 = (if c = CHR ''{'' then bracketCount + 1 else bracketCount);
          b2 = (if c = CHR ''}'' then b1 - 1 else b1)
      in if b2 = 0 \<and> startPos < i then i + 1
         else brace_scan cs (i + 1) startPos b2)"

text \<open>\<open>s.substring(a, b)\<close> for integers \<open>a \<le> b\<close>: a negative \<open>a\<close> counts as 0.\<close>

definition substring :: "string \<Rightarrow> int \<Rightarrow> int \<Rightarrow> string" where
  "substring s a b = take (nat b - nat a) (drop (nat a) s)"

text \<open>\<open>data && (data.data || data.vessels || data.ships || data.tankers)\<close>\<close>

definition has_vessel_key :: "jsval \<Rightarrow> bool" where
  "has_vessel_key data =
     (truthy data \<and>
      (case get_prop data ''data'' of Inl e \<Rightarrow> False | Inr a \<Rightarrow>
         if truthy a then True else
      (case get_prop data ''vessels'' of Inl e \<Rightarrow> False | Inr b \<Rightarrow>
         if truthy b then True else
      (case get_prop data ''ships'' of Inl e \<Rightarrow> False | Inr c \<Rightarrow>
         if truthy c then True else
      (case get_prop data ''tankers'' of Inl e \<Rightarrow> False | Inr d \<Rightarrow> truthy d)))))"

text \<open>
  The text handed to \<open>JSON.parse\<close> for one pattern: none when the pattern does not
  match or \<open>endPos > startPos\<close> fails.
\<close>

definition json_text :: "string \<Rightarrow> string \<Rightarrow> string option" where
  "json_text html key =
     (case regex_match key html of None \<Rightarrow> None | Some m \<Rightarrow>
        (let startPos = index_of html m;
             endPos = brace_scan (drop startPos html) startPos startPos 0
         in if startPos < endPos then Some (substring html (int startPos - 1) (int endPos))
            else None))"

text \<open>
  The loop over the patterns. \<open>JSON.parse\<close> is the host's: a parameter, giving the
  parsed value or the error it throws (caught: the next pattern is tried). The result
  is the \<open>data\<close> of \<open>{ source: 'html-json', data }\<close>, or none for \<open>null\<close>.
\<close>

fun scan_patterns :: "(string \<Rightarrow> js_error + jsval) \<Rightarrow> string \<Rightarrow> string list \<Rightarrow> jsval option" where
  "scan_patterns parse html [] = None"
| "scan_patterns parse html (key # keys) =
     (case json_text html key of
        None \<Rightarrow> scan_patterns parse html keys
      | Some jsonStr \<Rightarrow>
          (case parse jsonStr of
             Inl e \<Rightarrow> scan_patterns parse html keys
           | Inr data \<Rightarrow>
               if has_vessel_key data then Some data else scan_patterns parse html keys))"

definition html_json :: "(string \<Rightarrow> js_error + jsval) \<Rightarrow> string \<Rightarrow> jsval option" where
  "html_json parse html = scan_patterns parse html [''data'', ''vessels'', ''ships'', ''tankers'']"

section \<open>Script-scope extractor\<close>

text \<open>\<open>sample && (sample.imo || sample.IMO || sample.mmsi || sample.MMSI)\<close>\<close>

definition sample_ok :: "jsval \<Rightarrow> bool" where
  "sample_ok sample =
     (truthy sample \<and> (case has_id sample of Inl e \<Rightarrow> False | Inr b \<Rightarrow> b))"

text \<open>\<open>typeof v === 'object'\<close>\<close>

fun typeof_object :: "jsval \<Rightarrow> bool" where
  "typeof_object JNull = True"
| "typeof_object (JArr xs) = True"
| "typeof_object (JObj kvs) = True"
| "typeof_object v = False"

text \<open>\<open>w[prop] && Array.isArray(w[prop])\<close> with a sample that passes, for a truthy \<open>w\<close>.\<close>

definition prop_array_ok :: "jsval \<Rightarrow> string \<Rightarrow> bool" where
  "prop_array_ok w prop =
     (case get_prop w prop of Inl e \<Rightarrow> False
      | Inr a \<Rightarrow> truthy a \<and> isArray a \<and> sample_ok (arr_first a))"

text \<open>The loop over \<open>['vessels', 'ships', 'tankers', 'results']\<close> for one global.\<close>

fun scan_props :: "string \<Rightarrow> jsval \<Rightarrow> string list \<Rightarrow> (string \<times> jsval) option" where
  "scan_props key w [] = None"
| "scan_props key w (prop # props) =
     (if prop_array_ok w prop then
        (case get_prop w prop of
           Inl e \<Rightarrow> None
         | Inr a \<Rightarrow> Some (''window.'' @ key @ ''.'' @ prop, JObj [(''data'', a)]))
      else scan_props key w props)"

text \<open>The loop \<open>for (const key in window)\<close>: the \<open>{ source, data }\<close> returned, if any.\<close>

fun scan_window :: "(string \<times> jsval) list \<Rightarrow> (string \<times> jsval) option" where
  "scan_window [] = None"
| "scan_window ((key, w) # rest) =
     (if truthy w \<and> typeof_object w then
        (if isArray w \<and> sample_ok (arr_first w) then
           Some (''window.'' @ key, JObj [(''data'', w)])
         else if prop_array_ok w ''data'' then
           Some (''window.'' @ key @ ''.data'', w)
         else
           (case scan_props key w [''vessels'', ''ships'', ''tankers'', ''results''] of
              Some r \<Rightarrow> Some r
            | None \<Rightarrow> scan_window rest))
      else scan_window rest)"

definition window_get :: "(string \<times> jsval) list \<Rightarrow> string \<Rightarrow> jsval" where
  "window_get win k = (case map_of win k of None \<Rightarrow> JUndef | Some v \<Rightarrow> v)"

text \<open>The in-page function of lines 266 to 305.\<close>

definition script_scope :: "(string \<times> jsval) list \<Rightarrow> (string \<times> jsval) option" where
  "script_scope win =
     (if truthy (window_get win ''vesselData'') then
        Some (''window.vesselData'', window_get win ''vesselData'')
      else if truthy (window_get win ''gridData'') then
        Some (''window.gridData'', window_get win ''gridData'')
      else if truthy (window_get win ''tableData'') then
        Some (''window.tableData'', window_get win ''tableData'')
      else if truthy (window_get win ''reportData'') then
        Some (''window.reportData'', window_get win ''reportData'')
      else scan_window win)"

section \<open>Extraction Coordinator\<close>

text \<open>
  What one run meets outside the source: whether \<open>puppeteer.launch\<close> rejects; whether
  an awaited step between \<open>browser.newPage()\<close> and the end of the settle delay rejects
  (navigation, login); the responses whose handler has run by then; and what the three
  in-page reads meet. \<open>page.$(selector)\<close> with its \<open>catch\<close> finds an element or not.
  The in-page table function returns \<open>null\<close> or \<open>{ data }\<close> with the rows it read
  from the document. The in-page script-scope function reads the enumerable properties
  of \<open>window\<close>, listed in the order \<open>for (const key in window)\<close> visits them. The
  in-page markup function reads \<open>document.documentElement.outerHTML\<close>. Each
  \<open>page.evaluate\<close> may reject instead.
\<close>

record page =
  launch_error :: "js_error option"
  session_error :: "js_error option"
  responses :: "response list"
  has_element :: "string \<Rightarrow> bool"
  table_eval :: "string \<Rightarrow> js_error + jsval list option"
  script_error :: "js_error option"
  window :: "(string \<times> jsval) list"
  outer_html :: "js_error + string"

datatype strategy = DomTable | ScriptScope | MarkupJson

definition tableSelectors :: "string list" where
  \<open>tableSelectors =
     [''table.MuiTable-root'', ''table'', ''.data-table'', ''.grid-table'',
      ''[role="grid"]'', ''.ag-root-wrapper'']\<close>

text \<open>\<open>tableData && tableData.data && tableData.data.length > 0\<close>\<close>

definition table_found :: "jsval \<Rightarrow> bool" where
  "table_found tableData =
     (truthy tableData \<and>
      (case get_prop tableData ''data'' of Inl e \<Rightarrow> False
       | Inr d \<Rightarrow> truthy d \<and> 0 < arr_length d))"

text \<open>
  The loop over the selectors: the table data assigned to \<open>vesselData\<close> before
  \<open>break\<close>, none when the selectors are exhausted, or the error \<open>page.evaluate\<close>
  rejects with (it leaves the loop for the \<open>catch\<close> of line 257).
\<close>

fun table_loop :: "page \<Rightarrow> string list \<Rightarrow> js_error + jsval option" where
  "table_loop p [] = Inr None"
| "table_loop p (selector # rest) =
     (if has_element p selector then
        (case table_eval p selector of
           Inl e \<Rightarrow> Inl e
         | Inr r \<Rightarrow>
             (let tableData = (case r of None \<Rightarrow> JNull | Some rows \<Rightarrow> JObj [(''data'', JArr rows)])
              in if table_found tableData then Inr (Some tableData)
                 else table_loop p rest))
      else table_loop p rest)"

text \<open>
  The three guarded blocks of lines 189 to 375. Each takes \<open>vesselData\<close> and the list
  of the strategies invoked so far, and returns both.
\<close>

definition dom_phase :: "page \<Rightarrow> jsval \<times> strategy list \<Rightarrow> jsval \<times> strategy list" where
  "dom_phase p st =
     (case st of (vesselData, invs) \<Rightarrow>
        if js_not vesselData then
          (case table_loop p tableSelectors of
             Inl e \<Rightarrow> (vesselData, invs @ [DomTable])
           | Inr None \<Rightarrow> (vesselData, invs @ [DomTable])
           | Inr (Some tableData) \<Rightarrow> (tableData, invs @ [DomTable]))
        else (vesselData, invs))"

definition script_phase :: "page \<Rightarrow> jsval \<times> strategy list \<Rightarrow> jsval \<times> strategy list" where
  "script_phase p st =
     (case st of (vesselData, invs) \<Rightarrow>
        if js_not vesselData then
          (case script_error p of
             Some e \<Rightarrow> (vesselData, invs @ [ScriptScope])
           | None \<Rightarrow>
               (case script_scope (window p) of
                  None \<Rightarrow> (vesselData, invs @ [ScriptScope])
                | Some jsData \<Rightarrow> (snd jsData, invs @ [ScriptScope])))
        else (vesselData, invs))"

definition markup_phase ::
  "(string \<Rightarrow> js_error + jsval) \<Rightarrow> page \<Rightarrow> jsval \<times> strategy list \<Rightarrow> jsval \<times> strategy list" where
  "markup_phase parse p st =
     (case st of (vesselData, invs) \<Rightarrow>
        if js_not vesselData then
          (case outer_html p of
             Inl e \<Rightarrow> (vesselData, invs @ [MarkupJson])
           | Inr html \<Rightarrow>
               (case html_json parse html of
                  None \<Rightarrow> (vesselData, invs @ [MarkupJson])
                | Some data \<Rightarrow> (data, invs @ [MarkupJson])))
        else (vesselData, invs))"

text \<open>
  What a call of \<open>scrapeVesselData\<close> comes to: the value it resolves with or the error
  it rejects with, whether \<open>puppeteer.launch\<close> was called, whether \<open>browser.close()\<close>
  was, and the strategies invoked, in order.
\<close>

record outcome =
  result :: "js_error + jsval"
  launch_called :: bool
  browser_closed :: bool
  invoked :: "strategy list"

definition scrapeVesselData ::
  "(string \<Rightarrow> js_error + jsval) \<Rightarrow> options \<Rightarrow> environment \<Rightarrow> page \<Rightarrow> outcome" where
  "scrapeVesselData parse opts env p =
     (let username = username_of opts env; password = password_of opts env
      in if js_not username \<or> js_not password then
           \<lparr>result = Inl CredentialsRequired, launch_called = False,
            browser_closed = False, invoked = []\<rparr>
         else
           (case launch_error p of
              Some e \<Rightarrow>
                \<lparr>result = Inl e, launch_called = True, browser_closed = False, invoked = []\<rparr>
            | None \<Rightarrow>
                (case session_error p of
                   Some e \<Rightarrow>
                     \<lparr>result = Inl e, launch_called = True, browser_closed = True,
                      invoked = []\<rparr>
                 | None \<Rightarrow>
                     (let st = markup_phase parse p
                                 (script_phase p (dom_phase p (intercept (responses p), [])))
                      in \<lparr>result = Inr (fst st), launch_called = True,
                          browser_closed = True, invoked = snd st\<rparr>))))"

section \<open>Built-in functions the normalizer calls\<close>

subsection \<open>Decimal text\<close>

text \<open>The code unit of a character, and the number a run of digits denotes.\<close>

definition code_unit :: "char \<Rightarrow> int" where
  "code_unit c = of_char c"

definition is_digit :: "char \<Rightarrow> bool" where
  "is_digit c = (48 \<le> code_unit c \<and> code_unit c \<le> 57)"

definition digit_val :: "char \<Rightarrow> int" where
  "digit_val c = code_unit c - 48"

definition digits_val :: "string \<Rightarrow> int" where
  "digits_val ds = foldl (\<lambda>n c. 10 * n + digit_val c) 0 ds"

definition is_hex_digit :: "char \<Rightarrow> bool" where
  "is_hex_digit c =
     (is_digit c \<or> (65 \<le> code_unit c \<and> code_unit c \<le> 70)
      \<or> (97 \<le> code_unit c \<and> code_unit c \<le> 102))"

definition hex_val :: "char \<Rightarrow> int" where
  "hex_val c =
     (if is_digit c then digit_val c
      else if code_unit c \<le> 70 then code_unit c - 55
      else code_unit c - 87)"

definition hex_digits_val :: "string \<Rightarrow> int" where
  "hex_digits_val ds = foldl (\<lambda>n c. 16 * n + hex_val c) 0 ds"

definition trim :: "string \<Rightarrow> string" where
  "trim s = rev (skip_spaces (rev (skip_spaces s)))"

text \<open>A leading sign: whether it is \<open>-\<close>, and the text after it.\<close>

fun strip_sign :: "string \<Rightarrow> bool \<times> string" where
  "strip_sign [] = (False, [])"
| "strip_sign (c # cs) =
     (if c = CHR ''-'' then (True, cs)
      else if c = CHR ''+'' then (False, cs)
      else (False, c # cs))"

text \<open>
  An exponent part \<open>e\<close>, \<open>e+\<close> or \<open>e-\<close> followed by digits, at the start of a text:
  its value and the rest; the text itself and 0 when there is none.
\<close>

definition exponent_part :: "string \<Rightarrow> int \<times> string" where
  "exponent_part s =
     (case s of
        [] \<Rightarrow> (0, s)
      | c # cs \<Rightarrow>
          if c = CHR ''e'' \<or> c = CHR ''E'' then
            (let sg = strip_sign cs; ds = takeWhile is_digit (snd sg)
             in if ds = [] then (0, s)
                else ((if fst sg then - digits_val ds else digits_val ds),
                      dropWhile is_digit (snd sg)))
          else (0, s))"

text \<open>
  The longest prefix of a text that is an unsigned decimal literal (\<open>12\<close>, \<open>12.\<close>,
  \<open>12.5\<close>, \<open>.5\<close>, each with an optional exponent part): its digits read as one
  number, the number of digits after the point, the exponent, and the rest of
  the text. The literal denotes \<open>digits * 10 ^ (exponent - fraction digits)\<close>.
\<close>

definition decimal_prefix :: "string \<Rightarrow> ((int \<times> nat \<times> int) \<times> string) option" where
  "decimal_prefix s =
     (let ip = takeWhile is_digit s; r1 = dropWhile is_digit s
      in case r1 of
           [] \<Rightarrow> (if ip = [] then None else Some ((digits_val ip, 0, 0), []))
         | c # cs \<Rightarrow>
             if c = CHR ''.'' then
               (let fp = takeWhile is_digit cs; r2 = dropWhile is_digit cs
                in if ip = [] \<and> fp = [] then None
                   else Some ((digits_val (ip @ fp), length fp, fst (exponent_part r2)),
                              snd (exponent_part r2)))
             else if ip = [] then None
             else Some ((digits_val ip, 0, fst (exponent_part r1)), snd (exponent_part r1)))"

subsection \<open>Doubles\<close>

definition pow2 :: "int \<Rightarrow> rat" where
  "pow2 e = (if 0 \<le> e then 2 ^ nat e else 1 / 2 ^ nat (- e))"

definition pow10 :: "int \<Rightarrow> rat" where
  "pow10 e = (if 0 \<le> e then 10 ^ nat e else 1 / 10 ^ nat (- e))"

text \<open>The number of binary digits of a natural number.\<close>

fun nat_bits :: "nat \<Rightarrow> nat" where
  "nat_bits n = (if n = 0 then 0 else Suc (nat_bits (n div 2)))"

text \<open>For \<open>a > 0\<close>, the exponent \<open>e\<close> with \<open>2 ^ e \<le> a < 2 ^ (e + 1)\<close>.\<close>

definition floor_log2 :: "rat \<Rightarrow> int" where
  "floor_log2 a =
     (if 1 \<le> a then int (nat_bits (nat \<lfloor>a\<rfloor>)) - 1
      else - int (nat_bits (nat (\<lceil>1 / a\<rceil> - 1))))"

definition round_half_even :: "rat \<Rightarrow> int" where
  "round_half_even x =
     (let f = \<lfloor>x\<rfloor>; d = x - of_int f
      in if d < 1 / 2 then f
         else if 1 / 2 < d then f + 1
         else if even f then f else f + 1)"

text \<open>
  The double nearest to a rational (ties to even): 53 significant bits, the least
  exponent -1022 (below it the spacing stays \<open>2 ^ -1074\<close>), an infinity from
  \<open>2 ^ 1024\<close> on.
\<close>

definition round64 :: "rat \<Rightarrow> jsnum" where
  "round64 q =
     (if q = 0 then Fin 0
      else
        (let a = \<bar>q\<bar>;
             e = max (floor_log2 a) (- 1022);
             ulp = pow2 (e - 52);
             r = of_int (round_half_even (a / ulp)) * ulp
         in if pow2 1024 \<le> r then (if q < 0 then NegInf else PosInf)
            else Fin (if q < 0 then - r else r)))"

subsection \<open>parseFloat, parseInt, isNaN on a string\<close>

text \<open>
  \<open>parseFloat(s)\<close>: white space is skipped, then the longest prefix that is a signed
  decimal literal or \<open>Infinity\<close> is read; \<open>NaN\<close> when there is none.
\<close>

definition parseFloat :: "string \<Rightarrow> jsnum" where
  "parseFloat s =
     (let sg = strip_sign (skip_spaces s)
      in if starts_with (snd sg) ''Infinity'' then (if fst sg then NegInf else PosInf)
         else
           (case decimal_prefix (snd sg) of
              None \<Rightarrow> NaN
            | Some lit \<Rightarrow>
                (case fst lit of (m, f, e) \<Rightarrow>
                   round64 ((if fst sg then - 1 else 1) * of_int m * pow10 (e - int f)))))"

text \<open>
  \<open>parseInt(s)\<close> with no radix: white space is skipped, a sign is read, \<open>0x\<close> or
  \<open>0X\<close> selects radix 16, and the longest run of digits is the integer; none
  (\<open>NaN\<close>) when the run is empty. The integer is kept exact: the one use of the result
  checks its product with 1000 against a bound below \<open>2 ^ 53\<close>.
\<close>

definition parseInt_str :: "string \<Rightarrow> int option" where
  "parseInt_str s =
     (let sg = strip_sign (skip_spaces s); t = snd sg
      in if starts_with t ''0x'' \<or> starts_with t ''0X'' then
           (let ds = takeWhile is_hex_digit (drop 2 t)
            in if ds = [] then None
               else Some (if fst sg then - hex_digits_val ds else hex_digits_val ds))
         else
           (let ds = takeWhile is_digit t
            in if ds = [] then None
               else Some (if fst sg then - digits_val ds else digits_val ds)))"

text \<open>\<open>0x\<close>, \<open>0o\<close> or \<open>0b\<close> (either case) followed by digits of that radix only.\<close>

definition non_decimal_literal :: "string \<Rightarrow> bool" where
  "non_decimal_literal t =
     (case t of
        z # x # ds \<Rightarrow>
          z = CHR ''0'' \<and> ds \<noteq> [] \<and>
          (if x = CHR ''x'' \<or> x = CHR ''X'' then list_all is_hex_digit ds
           else if x = CHR ''o'' \<or> x = CHR ''O'' then
             list_all (\<lambda>c. 48 \<le> code_unit c \<and> code_unit c \<le> 55) ds
           else if x = CHR ''b'' \<or> x = CHR ''B'' then
             list_all (\<lambda>c. c = CHR ''0'' \<or> c = CHR ''1'') ds
           else False)
      | _ \<Rightarrow> False)"

text \<open>
  Whether \<open>Number(s)\<close> is a number other than \<open>NaN\<close>: the trimmed text is empty, a
  literal of radix 16, 8 or 2, or a signed decimal literal or \<open>Infinity\<close> with
  nothing after it.
\<close>

definition numeric_string :: "string \<Rightarrow> bool" where
  "numeric_string s =
     (let t = trim s
      in if t = [] then True
         else if non_decimal_literal t then True
         else
           (let u = snd (strip_sign t)
            in if u = ''Infinity'' then True
               else (case decimal_prefix u of None \<Rightarrow> False | Some lit \<Rightarrow> snd lit = [])))"

subsection \<open>Text of a number, of a value\<close>

definition digit_char :: "nat \<Rightarrow> char" where
  "digit_char d = ''0123456789'' ! (d mod 10)"

text \<open>The last \<open>w\<close> decimal digits of a natural number, zeros in front.\<close>

fun pad :: "nat \<Rightarrow> nat \<Rightarrow> string" where
  "pad 0 n = []"
| "pad (Suc w) n = pad w (n div 10) @ [digit_char (n mod 10)]"

text \<open>The decimal text of a natural number (the key of an array index).\<close>

fun dec_string :: "nat \<Rightarrow> string" where
  "dec_string n = (if n < 10 then [digit_char n] else dec_string (n div 10) @ [digit_char (n mod 10)])"

text \<open>
  What the normalizer takes from the host: \<open>Number.prototype.toString\<close> (the shortest
  decimal text of a double) and \<open>Date.parse\<close> on a string (the time value in
  milliseconds since the epoch, none for \<open>NaN\<close>), which ECMA-262 leaves to the
  implementation for texts outside its own date-time format.
\<close>

record host =
  num_to_string :: "jsnum \<Rightarrow> string"
  date_parse :: "string \<Rightarrow> int option"

text \<open>
  \<open>ToString\<close> of a value made of JSON data. An object has no callable \<open>toString\<close>
  of its own: it gets \<open>Object.prototype.toString\<close>, and a \<open>TypeError\<close> when an own
  property hides it. An array joins its elements with commas, \<open>null\<close> and
  \<open>undefined\<close> as the empty text.
\<close>

fun to_string :: "(jsnum \<Rightarrow> string) \<Rightarrow> jsval \<Rightarrow> js_error + string"
  and join_elems :: "(jsnum \<Rightarrow> string) \<Rightarrow> jsval list \<Rightarrow> js_error + string" where
  "to_string ns JUndef = Inr ''undefined''"
| "to_string ns JNull = Inr ''null''"
| "to_string ns (JBool b) = Inr (if b then ''true'' else ''false'')"
| "to_string ns (JNum n) = Inr (ns n)"
| "to_string ns (JStr s) = Inr s"
| "to_string ns (JArr xs) = join_elems ns xs"
| "to_string ns (JObj kvs) =
     (if map_of kvs ''toString'' = None then Inr ''[object Object]'' else Inl TypeError)"
| "join_elems ns [] = Inr []"
| "join_elems ns (x # xs) =
     (case (if x = JNull \<or> x = JUndef then Inr [] else to_string ns x) of
        Inl e \<Rightarrow> Inl e
      | Inr a \<Rightarrow>
          if xs = [] then Inr a
          else (case join_elems ns xs of Inl e \<Rightarrow> Inl e | Inr b \<Rightarrow> Inr (a @ '','' @ b)))"

text \<open>\<open>isNaN(v)\<close>: whether \<open>ToNumber(v)\<close> is \<open>NaN\<close>, or the error the conversion throws.\<close>

fun js_isNaN :: "(jsnum \<Rightarrow> string) \<Rightarrow> jsval \<Rightarrow> js_error + bool" where
  "js_isNaN ns JUndef = Inr True"
| "js_isNaN ns JNull = Inr False"
| "js_isNaN ns (JBool b) = Inr False"
| "js_isNaN ns (JNum n) = Inr (n = NaN)"
| "js_isNaN ns (JStr s) = Inr (\<not> numeric_string s)"
| "js_isNaN ns v =
     (case to_string ns v of Inl e \<Rightarrow> Inl e | Inr s \<Rightarrow> Inr (\<not> numeric_string s))"

text \<open>\<open>parseInt(v)\<close>: the integer, none for \<open>NaN\<close>, or the error \<open>ToString\<close> throws.\<close>

definition js_parseInt :: "(jsnum \<Rightarrow> string) \<Rightarrow> jsval \<Rightarrow> js_error + int option" where
  "js_parseInt ns v = (case to_string ns v of Inl e \<Rightarrow> Inl e | Inr s \<Rightarrow> Inr (parseInt_str s))"

subsection \<open>Dates\<close>

text \<open>A time value is a whole number of milliseconds within 8.64e15 of the epoch.\<close>

definition time_clip :: "int \<Rightarrow> int option" where
  "time_clip t = (if \<bar>t\<bar> \<le> 8640000000000000 then Some t else None)"

definition time_of_number :: "jsnum \<Rightarrow> int option" where
  "time_of_number n =
     (case n of
        Fin q \<Rightarrow> time_clip (if 0 \<le> q then \<lfloor>q\<rfloor> else \<lceil>q\<rceil>)
      | _ \<Rightarrow> None)"

text \<open>Year, month and day of a day number (days since 1970-01-01), proleptic Gregorian.\<close>

definition civil_from_days :: "int \<Rightarrow> int \<times> int \<times> int" where
  "civil_from_days z =
     (let z1 = z + 719468;
          era = z1 div 146097;
          doe = z1 - era * 146097;
          yoe = (doe - doe div 1460 + doe div 36524 - doe div 146096) div 365;
          doy = doe - (365 * yoe + yoe div 4 - yoe div 100);
          mp = (5 * doy + 2) div 153;
          d = doy - (153 * mp + 2) div 5 + 1;
          m = (if mp < 10 then mp + 3 else mp - 9);
          y = yoe + era * 400
      in ((if m \<le> 2 then y + 1 else y), m, d))"

definition days_from_civil :: "int \<Rightarrow> int \<Rightarrow> int \<Rightarrow> int" where
  "days_from_civil y m d =
     (let y1 = (if m \<le> 2 then y - 1 else y);
          era = y1 div 400;
          yoe = y1 - era * 400;
          doy = (153 * (if 2 < m then m - 3 else m + 9) + 2) div 5 + d - 1;
          doe = yoe * 365 + yoe div 4 - yoe div 100 + doy
      in era * 146097 + doe - 719468)"

definition year_string :: "int \<Rightarrow> string" where
  "year_string y =
     (if 0 \<le> y \<and> y \<le> 9999 then pad 4 (nat y)
      else (if y < 0 then ''-'' else ''+'') @ pad 6 (nat \<bar>y\<bar>))"

text \<open>\<open>Date.prototype.toISOString\<close> of a time value.\<close>

definition iso_string :: "int \<Rightarrow> string" where
  "iso_string t =
     (let day = t div 86400000;
          ms = t mod 86400000;
          ymd = civil_from_days day
      in year_string (fst ymd) @ ''-'' @ pad 2 (nat (fst (snd ymd))) @ ''-'' @
         pad 2 (nat (snd (snd ymd))) @ ''T'' @
         pad 2 (nat (ms div 3600000)) @ '':'' @
         pad 2 (nat (ms div 60000 mod 60)) @ '':'' @
         pad 2 (nat (ms div 1000 mod 60)) @ ''.'' @
         pad 3 (nat (ms mod 1000)) @ ''Z'')"

text \<open>
  The time value of \<open>new Date(v)\<close>: a string is parsed by the host, a number is the
  time value itself, an object or array goes through its text.
\<close>

fun date_value :: "host \<Rightarrow> jsval \<Rightarrow> js_error + int option" where
  "date_value h JUndef = Inr None"
| "date_value h JNull = Inr (Some 0)"
| "date_value h (JBool b) = Inr (Some (if b then 1 else 0))"
| "date_value h (JNum n) = Inr (time_of_number n)"
| "date_value h (JStr s) = Inr (case date_parse h s of None \<Rightarrow> None | Some t \<Rightarrow> time_clip t)"
| "date_value h v =
     (case to_string (num_to_string h) v of
        Inl e \<Rightarrow> Inl e
      | Inr s \<Rightarrow> Inr (case date_parse h s of None \<Rightarrow> None | Some t \<Rightarrow> time_clip t))"

section \<open>formatVesselData\<close>

text \<open>
  A vessel record is the list of the own properties of the object. \<open>field_get\<close> is
  the read \<open>formattedVessel[key]\<close> and \<open>AList.update\<close> the assignment to it; the source
  assigns to keys the record already has, so the keys and their order stay.
\<close>

type_synonym vessel = "(string \<times> jsval) list"

definition field_get :: "vessel \<Rightarrow> string \<Rightarrow> jsval" where
  "field_get fv k = (case map_of fv k of None \<Rightarrow> JUndef | Some v \<Rightarrow> v)"

text \<open>Lines 143 to 147.\<close>

definition nulls :: "vessel \<Rightarrow> vessel" where
  "nulls fv = map (\<lambda>kv. (fst kv, if snd kv = JNull \<or> snd kv = JUndef then JNull else snd kv)) fv"

text \<open>
  The \<open>try\<close> block of lines 151 to 156 (and of 179 to 184): the value the field has
  after it, or the error thrown; \<open>toISOString\<close> throws a \<open>RangeError\<close> on an invalid
  date.
\<close>

definition timestamp_try :: "host \<Rightarrow> jsval \<Rightarrow> js_error + jsval" where
  "timestamp_try h v =
     (case js_isNaN (num_to_string h) v of
        Inl e \<Rightarrow> Inl e
      | Inr nan \<Rightarrow>
          if nan then Inr v
          else
            (case js_parseInt (num_to_string h) v of
               Inl e \<Rightarrow> Inl e
             | Inr timestamp \<Rightarrow>
                 (case (case timestamp of None \<Rightarrow> None | Some n \<Rightarrow> time_clip (n * 1000)) of
                    None \<Rightarrow> Inl RangeError
                  | Some t \<Rightarrow> Inr (JStr (iso_string t)))))"

definition format_timestamp :: "host \<Rightarrow> string \<Rightarrow> vessel \<Rightarrow> vessel" where
  "format_timestamp h k fv =
     (let v = field_get fv k
      in if truthy v \<and> v \<noteq> JNull then
           AList.update k (case timestamp_try h v of Inl e \<Rightarrow> JNull | Inr x \<Rightarrow> x) fv
         else fv)"

text \<open>The \<open>try\<close> block of lines 165 to 171; \<open>split('T')[0]\<close> is the text before the first T.\<close>

definition launch_date_try :: "host \<Rightarrow> jsval \<Rightarrow> js_error + jsval" where
  "launch_date_try h v =
     (case date_value h v of
        Inl e \<Rightarrow> Inl e
      | Inr None \<Rightarrow> Inr JNull
      | Inr (Some t) \<Rightarrow> Inr (JStr (takeWhile (\<lambda>c. c \<noteq> CHR ''T'') (iso_string t))))"

definition format_launch_date :: "host \<Rightarrow> vessel \<Rightarrow> vessel" where
  "format_launch_date h fv =
     (let v = field_get fv ''LAUNCH_DATE''
      in if truthy v \<and> v \<noteq> JNull then
           AList.update ''LAUNCH_DATE''
             (case launch_date_try h v of Inl e \<Rightarrow> JNull | Inr x \<Rightarrow> x) fv
         else fv)"

definition numericFields :: "string list" where
  "numericFields =
     [''LAT'', ''LON'', ''SPEED'', ''COURSE'', ''DRAUGHT_MAX'', ''DRAUGHT_MIN'',
      ''LENGTH'', ''WIDTH'', ''LENGTH_B_W_PERPENDICULARS'', ''LENGTH_REGISTERED'',
      ''DEPTH'', ''BREADTH_MOULDED'', ''BREADTH_EXTREME'']"

text \<open>\<open>s.replace(',', '.')\<close>: a string pattern replaces its first occurrence only.\<close>

fun replace_first :: "char \<Rightarrow> char \<Rightarrow> string \<Rightarrow> string" where
  "replace_first a b [] = []"
| "replace_first a b (c # cs) = (if c = a then b # cs else c # replace_first a b cs)"

text \<open>The body of the \<open>forEach\<close> of lines 195 to 206 for one field.\<close>

definition format_numeric :: "vessel \<Rightarrow> string \<Rightarrow> vessel" where
  "format_numeric fv field =
     (let v = field_get fv field
      in if v \<noteq> JNull \<and> v \<noteq> JUndef then
           (case v of
              JStr s \<Rightarrow>
                (let replaced = replace_first CHR '','' CHR ''.'' s;
                     fv1 = AList.update field (JStr replaced) fv;
                     numValue = parseFloat replaced
                 in if numValue \<noteq> NaN then AList.update field (JNum numValue) fv1 else fv1)
            | _ \<Rightarrow> fv)
         else fv)"

definition formatVesselData :: "host \<Rightarrow> vessel \<Rightarrow> vessel" where
  "formatVesselData h vessel =
     foldl format_numeric
       (format_timestamp h ''FIRST_POS_TIMESTAMP''
          (format_launch_date h
             (format_timestamp h ''ETA_UPDATED'' (nulls vessel))))
       numericFields"

subsection \<open>A host\<close>

text \<open>
  \<open>Date.parse\<close> as V8 does it, on two kinds of text only: a text with no digit is
  rejected, and a month name, a day, a comma and a four-digit year (\<open>March 3, 1999\<close>)
  are read as midnight of that day in local time, \<open>tz\<close> being the minutes local time
  is ahead of UTC. On any other text the function gives none and models nothing.
\<close>

definition lower_char :: "char \<Rightarrow> char" where
  "lower_char c =
     (if 65 \<le> code_unit c \<and> code_unit c \<le> 90 then char_of (code_unit c + 32) else c)"

definition is_alpha :: "char \<Rightarrow> bool" where
  "is_alpha c = (97 \<le> code_unit (lower_char c) \<and> code_unit (lower_char c) \<le> 122)"

fun index_in :: "string list \<Rightarrow> string \<Rightarrow> nat \<Rightarrow> nat option" where
  "index_in [] w i = None"
| "index_in (x # xs) w i = (if x = w then Some i else index_in xs w (Suc i))"

text \<open>The month a word names, by its first three letters.\<close>

definition month_of_word :: "string \<Rightarrow> nat option" where
  "month_of_word w =
     (if length w < 3 then None
      else index_in [''jan'', ''feb'', ''mar'', ''apr'', ''may'', ''jun'',
                     ''jul'', ''aug'', ''sep'', ''oct'', ''nov'', ''dec'']
             (map lower_char (take 3 w)) 1)"

definition month_day_year :: "int \<Rightarrow> string \<Rightarrow> int option" where
  "month_day_year tz s =
     (case month_of_word (takeWhile is_alpha s) of
        None \<Rightarrow> None
      | Some m \<Rightarrow>
          (let r1 = skip_spaces (dropWhile is_alpha s);
               d = takeWhile is_digit r1
           in case strip_prefix '','' (dropWhile is_digit r1) of
                None \<Rightarrow> None
              | Some r2 \<Rightarrow>
                  (let y = takeWhile is_digit (skip_spaces r2)
                   in if dropWhile is_digit (skip_spaces r2) = [] \<and> length y = 4 \<and>
                         1 \<le> digits_val d \<and> digits_val d \<le> 31 \<and> d \<noteq> []
                      then Some ((days_from_civil (digits_val y) (int m) 1
                                    + digits_val d - 1) * 86400000 - tz * 60000)
                      else None)))"

definition v8_date_parse :: "int \<Rightarrow> string \<Rightarrow> int option" where
  "v8_date_parse tz s = (if list_ex is_digit s then month_day_year tz s else None)"

text \<open>A host in the time zone \<open>tz\<close>; \<open>ns\<close> is its \<open>Number.prototype.toString\<close>.\<close>

definition v8_host :: "(jsnum \<Rightarrow> string) \<Rightarrow> int \<Rightarrow> host" where
  "v8_host ns tz = \<lparr>num_to_string = ns, date_parse = v8_date_parse tz\<rparr>"

section \<open>Upsert engine\<close>

text \<open>
  The statements the source sends through \<open>client.query\<close>: the three transaction
  commands, the existence check with its one parameter, and the \<open>INSERT\<close> and
  \<open>UPDATE\<close> built from a field list, with their parameters. In \<open>Update fields values\<close>
  the first value is the one bound to \<open>WHERE SHIP_ID = $1\<close>, the others are the new
  values of the fields, in order.
\<close>

datatype stmt =
    Begin
  | Commit
  | Rollback
  | Select jsval
  | Insert "string list" "jsval list"
  | Update "string list" "jsval list"

datatype log_line =
    LogNoVessels
  | LogNoFields jsval
  | LogUpdated jsval
  | LogInserted jsval
  | LogSaveError jsval
  | LogCompleted nat nat
  | LogRolledBack
  | LogAlreadyRunning
  | LogStarting
  | LogRetrieved nat
  | LogNoData
  | LogRunError

text \<open>
  The sink is outside the source: \<open>pool.connect()\<close> gives a client or rejects;
  \<open>client.query\<close> answers a statement with the row count of its result or rejects,
  and moves the sink to a new state.
\<close>

record 'db sink =
  connect :: "'db \<Rightarrow> js_error option"
  query :: "'db \<Rightarrow> stmt \<Rightarrow> (js_error + nat) \<times> 'db"

text \<open>
  The state of one call of \<open>saveVesselsToDatabase\<close>: the sink, the statements sent so
  far, the lines logged, and the two counters.
\<close>

record 'db saving =
  db :: 'db
  sent :: "stmt list"
  logged :: "log_line list"
  savedCount :: nat
  errorCount :: nat

definition send :: "'db sink \<Rightarrow> 'db saving \<Rightarrow> stmt \<Rightarrow> (js_error + nat) \<times> 'db saving" where
  "send snk st q =
     (case query snk (db st) q of
        (r, d) \<Rightarrow> (r, st\<lparr>db := d, sent := sent st @ [q]\<rparr>))"

definition say :: "log_line \<Rightarrow> 'db saving \<Rightarrow> 'db saving" where
  "say l st = st\<lparr>logged := logged st @ [l]\<rparr>"

text \<open>\<open>Object.keys(vessel).filter(key => vessel[key] !== undefined)\<close>\<close>

definition insert_fields :: "vessel \<Rightarrow> string list" where
  "insert_fields v = filter (\<lambda>key. field_get v key \<noteq> JUndef) (map fst v)"

text \<open>\<open>Object.keys(vessel).filter(key => vessel[key] !== undefined && key !== 'SHIP_ID')\<close>\<close>

definition update_fields :: "vessel \<Rightarrow> string list" where
  "update_fields v =
     filter (\<lambda>key. field_get v key \<noteq> JUndef \<and> key \<noteq> ''SHIP_ID'') (map fst v)"

definition insertVessel :: "'db sink \<Rightarrow> 'db saving \<Rightarrow> vessel \<Rightarrow> (js_error + nat) \<times> 'db saving" where
  "insertVessel snk st v =
     (let fields = insert_fields v
      in send snk st (Insert fields (map (field_get v) fields)))"

definition updateVessel :: "'db sink \<Rightarrow> 'db saving \<Rightarrow> vessel \<Rightarrow> (js_error + nat) \<times> 'db saving" where
  "updateVessel snk st v =
     (let fields = update_fields v
      in if fields = [] then (Inr 0, say (LogNoFields (field_get v ''SHIP_ID'')) st)
         else send snk st (Update fields (field_get v ''SHIP_ID'' # map (field_get v) fields)))"

text \<open>
  The own enumerable properties \<open>{ ...vessel }\<close> copies: those of an object, the
  indexed elements of an array, the characters of a string, none of another value.
\<close>

fun index_keys :: "nat \<Rightarrow> nat \<Rightarrow> string list" where
  "index_keys i 0 = []"
| "index_keys i (Suc n) = index_keys i n @ [dec_string (i + n)]"

fun own_properties :: "jsval \<Rightarrow> vessel" where
  "own_properties (JObj kvs) = kvs"
| "own_properties (JArr xs) = zip (index_keys 0 (length xs)) xs"
| "own_properties (JStr s) = zip (index_keys 0 (length s)) (map (\<lambda>c. JStr [c]) s)"
| "own_properties v = []"

text \<open>
  The \<open>try\<close> block of lines 92 to 112 for one element of \<open>vessels\<close>: the error thrown
  in it, or its normal end, and the state it leaves.
\<close>

definition save_try :: "host \<Rightarrow> 'db sink \<Rightarrow> 'db saving \<Rightarrow> jsval \<Rightarrow> (js_error + nat) \<times> 'db saving" where
  "save_try h snk st vessel =
     (case get_prop vessel ''SHIP_ID'' of
        Inl e \<Rightarrow> (Inl e, st)
      | Inr ship_id \<Rightarrow>
          (case send snk st (Select ship_id) of
             (Inl e, st1) \<Rightarrow> (Inl e, st1)
           | (Inr rowCount, st1) \<Rightarrow>
               (let formattedVessel = formatVesselData h (own_properties vessel)
                in if 0 < rowCount then
                     (case updateVessel snk st1 formattedVessel of
                        (Inl e, st2) \<Rightarrow> (Inl e, st2)
                      | (Inr n, st2) \<Rightarrow> (Inr n, say (LogUpdated ship_id) st2))
                   else
                     (case insertVessel snk st1 formattedVessel of
                        (Inl e, st2) \<Rightarrow> (Inl e, st2)
                      | (Inr n, st2) \<Rightarrow> (Inr n, say (LogInserted ship_id) st2)))))"

text \<open>
  One turn of the loop: \<open>savedCount++\<close> at the end of the \<open>try\<close> block; otherwise
  the \<open>catch\<close>, which reads \<open>vessel.SHIP_ID\<close> for its message before it counts the
  error, so that for an element that is \<open>null\<close> or \<open>undefined\<close> the \<open>catch\<close> itself
  throws and the loop is left.
\<close>

definition save_one ::
  "host \<Rightarrow> 'db sink \<Rightarrow> 'db saving \<Rightarrow> jsval \<Rightarrow> js_error option \<times> 'db saving" where
  "save_one h snk st vessel =
     (case save_try h snk st vessel of
        (Inr n, st1) \<Rightarrow> (None, st1\<lparr>savedCount := savedCount st1 + 1\<rparr>)
      | (Inl e, st1) \<Rightarrow>
          (case get_prop vessel ''SHIP_ID'' of
             Inl e2 \<Rightarrow> (Some e2, st1)
           | Inr i \<Rightarrow> (None, (say (LogSaveError i) st1)\<lparr>errorCount := errorCount st1 + 1\<rparr>)))"

text \<open>The loop \<open>for (const vessel of vessels)\<close>: the error that leaves it, if any.\<close>

fun save_loop ::
  "host \<Rightarrow> 'db sink \<Rightarrow> 'db saving \<Rightarrow> jsval list \<Rightarrow> js_error option \<times> 'db saving" where
  "save_loop h snk st [] = (None, st)"
| "save_loop h snk st (vessel # rest) =
     (case save_one h snk st vessel of
        (Some e, st1) \<Rightarrow> (Some e, st1)
      | (None, st1) \<Rightarrow> save_loop h snk st1 rest)"

text \<open>
  What a call of \<open>saveVesselsToDatabase\<close> comes to: the error it rejects with, if any,
  whether the client was released, and the final state.
\<close>

record 'db saved =
  thrown :: "js_error option"
  released :: bool
  final :: "'db saving"

text \<open>The \<open>catch\<close> of lines 123 to 127: \<open>ROLLBACK\<close>, which may itself reject, then \<open>throw error\<close>.\<close>

definition rollback :: "'db sink \<Rightarrow> 'db saving \<Rightarrow> js_error \<Rightarrow> 'db saved" where
  "rollback snk st e =
     (case send snk st Rollback of
        (Inl e2, st1) \<Rightarrow> \<lparr>thrown = Some e2, released = True, final = st1\<rparr>
      | (Inr n, st1) \<Rightarrow> \<lparr>thrown = Some e, released = True, final = say LogRolledBack st1\<rparr>)"

definition saveVesselsToDatabase :: "host \<Rightarrow> 'db sink \<Rightarrow> 'db \<Rightarrow> jsval list \<Rightarrow> 'db saved" where
  "saveVesselsToDatabase h snk d vessels =
     (let st0 = \<lparr>db = d, sent = [], logged = [], savedCount = 0, errorCount = 0\<rparr>
      in if vessels = [] then
           \<lparr>thrown = None, released = False, final = say LogNoVessels st0\<rparr>
         else
           (case connect snk d of
              Some e \<Rightarrow> \<lparr>thrown = Some e, released = False, final = st0\<rparr>
            | None \<Rightarrow>
                (case send snk st0 Begin of
                   (Inl e, st1) \<Rightarrow> rollback snk st1 e
                 | (Inr n, st1) \<Rightarrow>
                     (case save_loop h snk st1 vessels of
                        (Some e, st2) \<Rightarrow> rollback snk st2 e
                      | (None, st2) \<Rightarrow>
                          (case send snk st2 Commit of
                             (Inl e, st3) \<Rightarrow> rollback snk st3 e
                           | (Inr m, st3) \<Rightarrow>
                               \<lparr>thrown = None, released = True,
                                final =
                                  say (LogCompleted (savedCount st3) (errorCount st3)) st3\<rparr>)))))"

section \<open>runScraper\<close>


text \<open>
  \<open>runScraper\<close> is an \<open>async\<close> function with two \<open>await\<close>s; the program has one
  thread, so the code between two \<open>await\<close>s runs in one piece. The state is the two
  module variables, the number of calls suspended at \<open>await scrapeVesselData(...)\<close>
  (each holds at most one browser session), the number of calls suspended at
  \<open>await saveVesselsToDatabase(...)\<close> (each holds at most one transaction), and the
  log. An event is a call of \<open>runScraper\<close> (by \<open>main\<close> or by the timer), or the
  settling of one of the two awaited promises with its value or error.
\<close>

record scheduler =
  isRunning :: bool
  latestVesselData :: jsval
  scraping :: nat
  saving :: nat
  lines :: "log_line list"





section \<open>Example runs\<close>

text \<open>Inputs at which the properties below are evaluated.\<close>

definition creds :: options where
  "creds = \<lparr>opt_username = JStr ''user@example.com'', opt_password = JStr ''secret''\<rparr>"

definition no_env :: environment where
  "no_env = \<lparr>MT_USERNAME = None, MT_PASSWORD = None\<rparr>"

definition opts_user_only :: options where
  "opts_user_only = \<lparr>opt_username = JStr ''user@example.com'', opt_password = JUndef\<rparr>"

definition env_pass_only :: environment where
  "env_pass_only = \<lparr>MT_USERNAME = None, MT_PASSWORD = Some ''secret''\<rparr>"

definition no_parse :: "string \<Rightarrow> js_error + jsval" where
  "no_parse s = Inl SyntaxError"

text \<open>A page with no response, no table, no global and no JSON in its markup.\<close>

definition blank_page :: page where
  "blank_page =
     \<lparr>launch_error = None, session_error = None, responses = [],
      has_element = (\<lambda>s. False), table_eval = (\<lambda>s. Inr None),
      script_error = None, window = [], outer_html = Inr ''<html></html>''\<rparr>"


definition error_payload :: jsval where
  "error_payload = JObj [(''error'', JStr ''no results'')]"


definition other_response :: response where
  "other_response =
     \<lparr>url = ''https://www.marinetraffic.com/en/reports/?asset_type=vessels'',
      content_type = Some ''application/json; charset=utf-8'',
      body = Inr error_payload\<rparr>"

text \<open>The one response of the session is JSON on an allow-listed path, not vessel-shaped.\<close>

definition unmatched_page :: page where
  "unmatched_page = blank_page\<lparr>responses := [other_response]\<rparr>"


text \<open>
  A page whose markup is one JSON object with a vessel array, and a \<open>JSON.parse\<close>
  that reads that whole text and rejects every other text.
\<close>

definition html0 :: string where
  \<open>html0 = ''{"data":[{"imo":"1"}]}''\<close>

definition parse0 :: "string \<Rightarrow> js_error + jsval" where
  "parse0 s =
     (if s = html0 then Inr (JObj [(''data'', JArr [JObj [(''imo'', JStr ''1'')]])])
      else Inl SyntaxError)"

section \<open>Properties\<close>

subsection \<open>Interceptor\<close>

lemma intercept_snoc: "intercept (rs @ [r]) = on_response (intercept rs) r"
  by (simp add: intercept_def)

lemma on_response_shape:
  "v = JNull \<or> vessel_shape v = Inr True \<Longrightarrow>
   on_response v r = JNull \<or> vessel_shape (on_response v r) = Inr True"
  by (auto simp: on_response_def response_try_def split: sum.splits)

text \<open>What the interceptor holds is \<open>null\<close> or a payload that passed the predicate.\<close>

lemma intercept_shape: "intercept rs = JNull \<or> vessel_shape (intercept rs) = Inr True"
proof (induction rs rule: rev_induct)
  case Nil
  then show ?case by (simp add: intercept_def)
next
  case (snoc r rs)
  then show ?case using on_response_shape[of "intercept rs" r] by (simp add: intercept_snoc)
qed





subsection \<open>Fallback chain\<close>














subsection \<open>Markup without a double quote\<close>

lemma match_here_quote: "match_here key s = Some rest \<Longrightarrow> \<exists>cs. s = CHR 0x22 # cs"
  by (cases s) (auto simp: match_here_def split: option.splits if_splits)

lemma regex_match_no_quote: "CHR 0x22 \<notin> set s \<Longrightarrow> regex_match key s = None"
proof (induction s)
  case Nil
  then show ?case by simp
next
  case (Cons c cs)
  then have "match_here key (c # cs) = None"
    using match_here_quote[of key "c # cs"] by (cases "match_here key (c # cs)") auto
  with Cons show ?case by simp
qed

lemma html_json_no_quote: "CHR 0x22 \<notin> set html \<Longrightarrow> html_json parse html = None"
  by (simp add: html_json_def json_text_def regex_match_no_quote)

lemma blank_markup: "html_json parse ''<html></html>'' = None"
  by (rule html_json_no_quote) simp

subsection \<open>Last resort\<close>

text \<open>
  C1. A run whose one intercepted response is JSON on an allow-listed path but not
  vessel-shaped, and in which the DOM table, script-scope and markup strategies are
  all invoked and find nothing: \<open>scrapeVesselData\<close> resolves with \<open>null\<close>, not with
  the captured payload. The handler assigns \<open>vesselData\<close> only under the predicate,
  so the branch of lines 378 to 381 has no payload to fall back to.
\<close>

theorem last_resort_returns_null:
  "result (scrapeVesselData parse creds no_env unmatched_page) = Inr JNull \<and>
   invoked (scrapeVesselData parse creds no_env unmatched_page)
     = [DomTable, ScriptScope, MarkupJson] \<and>
   body (hd (responses unmatched_page)) = Inr error_payload"
  by (simp add: scrapeVesselData_def Let_def creds_def no_env_def username_of_def
        password_of_def with_default_def js_not_def unmatched_page_def blank_page_def
        intercept_def on_response_def response_try_def other_response_def allow_listed_def
        contentType_of_def error_payload_def vessel_shape_def nonempty_array_def
        dom_phase_def script_phase_def markup_phase_def tableSelectors_def
        script_scope_def window_get_def blank_markup env_value_def)

subsection \<open>Credentials\<close>

text \<open>
  C10, as amended. Each credential is defaulted on its own: the property of
  \<open>options\<close> unless it is \<open>undefined\<close>, the environment variable otherwise. If the
  username or the password so obtained is missing or empty, \<open>scrapeVesselData\<close>
  throws "MarineTraffic username and password are required" and \<open>puppeteer.launch\<close>
  is not called: no browser is launched or closed and no strategy is invoked.
\<close>

theorem credentials_required:
  "js_not (username_of opts env) \<or> js_not (password_of opts env) \<Longrightarrow>
   result (scrapeVesselData parse opts env p) = Inl CredentialsRequired \<and>
   launch_called (scrapeVesselData parse opts env p) = False \<and>
   browser_closed (scrapeVesselData parse opts env p) = False \<and>
   invoked (scrapeVesselData parse opts env p) = []"
  by (simp add: scrapeVesselData_def)

theorem credentials_required_witness:
  "js_not (password_of opts_user_only no_env) \<and>
   result (scrapeVesselData no_parse opts_user_only no_env blank_page) = Inl CredentialsRequired \<and>
   launch_called (scrapeVesselData no_parse opts_user_only no_env blank_page) = False"
proof -
  have h: "js_not (password_of opts_user_only no_env)"
    by (simp add: js_not_def password_of_def with_default_def opts_user_only_def no_env_def
          env_value_def)
  with credentials_required[of opts_user_only no_env no_parse blank_page]
  show ?thesis by simp
qed

text \<open>
  C10 as stated fails when the two sources complete each other: \<open>options\<close> gives the
  username only and the environment the password only. Neither source supplies both
  credentials, yet nothing is thrown and the browser is launched.
\<close>

theorem credentials_counterexample:
  "\<not> (truthy (opt_username opts_user_only) \<and> truthy (opt_password opts_user_only)) \<and>
   \<not> (truthy (env_value (MT_USERNAME env_pass_only)) \<and>
      truthy (env_value (MT_PASSWORD env_pass_only))) \<and>
   result (scrapeVesselData no_parse opts_user_only env_pass_only blank_page) = Inr JNull \<and>
   launch_called (scrapeVesselData no_parse opts_user_only env_pass_only blank_page) = True"
  by (simp add: scrapeVesselData_def Let_def opts_user_only_def env_pass_only_def
        username_of_def password_of_def with_default_def js_not_def env_value_def
        blank_page_def intercept_def dom_phase_def script_phase_def markup_phase_def
        tableSelectors_def script_scope_def window_get_def blank_markup)

subsection \<open>Concurrency guard\<close>






subsection \<open>Markup-embedded JSON\<close>

lemma strip_prefix_Some: "strip_prefix p s = Some r \<Longrightarrow> s = p @ r"
  by (induction p s rule: strip_prefix.induct) (auto split: if_splits)

lemma skip_spaces_length: "length (skip_spaces s) \<le> length s"
  by (induction s) auto

lemma strip_colon_length:
  "strip_prefix p (skip_spaces s) = Some r \<Longrightarrow> length r \<le> length s"
  using strip_prefix_Some[of p "skip_spaces s" r] skip_spaces_length[of s]
  by (metis le_add2 le_trans length_append)

lemma strip_name_length: "strip_name s = Some r \<Longrightarrow> length r \<le> length s"
  by (auto simp: strip_name_def length_dropWhile_le split: if_splits)

lemma match_here_shape:
  assumes "match_here key s = Some rest"
  shows "\<exists>mid. s = CHR 0x22 # key @ mid \<and> length rest \<le> length mid"
proof -
  from assms obtain s1 s2 s3 s4 s5 s6 s7 where
    p: "strip_prefix ([CHR 0x22] @ key @ [CHR 0x22]) s = Some s1"
    and q: "strip_prefix '':'' (skip_spaces s1) = Some s2"
       "strip_prefix ''['' (skip_spaces s2) = Some s3"
       "strip_prefix ''{'' (skip_spaces s3) = Some s4"
       "strip_prefix [CHR 0x22] (skip_spaces s4) = Some s5"
       "strip_name s5 = Some s6"
       "strip_prefix [CHR 0x22] s6 = Some s7"
       "strip_prefix '':'' (skip_spaces s7) = Some rest"
    by (auto simp: match_here_def split: option.splits)
  have "length rest \<le> length s7" using q(7) by (rule strip_colon_length)
  also have "\<dots> \<le> length s6" using strip_prefix_Some[OF q(6)] by simp
  also have "\<dots> \<le> length s5" using q(5) by (rule strip_name_length)
  also have "\<dots> \<le> length s4" using q(4) by (rule strip_colon_length)
  also have "\<dots> \<le> length s3" using q(3) by (rule strip_colon_length)
  also have "\<dots> \<le> length s2" using q(2) by (rule strip_colon_length)
  also have "\<dots> \<le> length s1" using q(1) by (rule strip_colon_length)
  finally have "length rest \<le> length (CHR 0x22 # s1)" by simp
  moreover have "s = CHR 0x22 # key @ (CHR 0x22 # s1)"
    using strip_prefix_Some[OF p] by simp
  ultimately show ?thesis by blast
qed

lemma starts_with_append: "starts_with (m @ r) m"
  by (induction m) auto

lemma starts_with_take: "starts_with s (take n s)"
  using starts_with_append[of "take n s" "drop n s"] by simp

text \<open>The matched text begins with the quote and the key, and occurs in the markup.\<close>

lemma regex_match_shape:
  "regex_match key html = Some m \<Longrightarrow>
   (\<exists>ms. m = CHR 0x22 # key @ ms) \<and> (\<exists>i. starts_with (drop i html) m)"
proof (induction html)
  case Nil
  then show ?case by simp
next
  case (Cons c cs)
  show ?case
  proof (cases "match_here key (c # cs)")
    case None
    with Cons obtain ms i where "m = CHR 0x22 # key @ ms" "starts_with (drop i cs) m"
      by auto
    then have "m = CHR 0x22 # key @ ms \<and> starts_with (drop (Suc i) (c # cs)) m"
      by simp
    then show ?thesis by blast
  next
    case (Some rest)
    from match_here_shape[OF Some] obtain mid where
      s: "c # cs = CHR 0x22 # key @ mid" and l: "length rest \<le> length mid" by blast
    from Some Cons.prems have m: "m = take (length (c # cs) - length rest) (c # cs)" by simp
    have n: "length (c # cs) - length rest = length (CHR 0x22 # key) + (length mid - length rest)"
      using l by (subst s) simp
    have "m = CHR 0x22 # key @ take (length mid - length rest) mid"
      unfolding m n by (subst s)+ simp
    moreover have "starts_with (drop 0 (c # cs)) m"
      unfolding m by (simp only: drop_0 starts_with_take)
    ultimately show ?thesis by blast
  qed
qed

lemma starts_with_eq: "starts_with s m \<Longrightarrow> \<exists>r. s = m @ r"
  by (induction s m rule: starts_with.induct) auto

lemma index_of_occurs:
  "starts_with (drop i html) m \<Longrightarrow> m \<noteq> [] \<Longrightarrow> starts_with (drop (index_of html m) html) m"
proof (induction html arbitrary: i)
  case Nil
  then show ?case by (cases m) auto
next
  case (Cons c cs)
  show ?case
  proof (cases "starts_with (c # cs) m")
    case True
    then show ?thesis by simp
  next
    case False
    with Cons.prems obtain j where "i = Suc j" by (cases i) auto
    with Cons False show ?thesis by auto
  qed
qed

lemma brace_scan_two:
  "c0 \<noteq> CHR ''{'' \<Longrightarrow> c0 \<noteq> CHR ''}'' \<Longrightarrow> c1 \<noteq> CHR ''{'' \<Longrightarrow> c1 \<noteq> CHR ''}'' \<Longrightarrow>
   brace_scan (c0 # c1 # rest) i i 0 = i + 2"
  by simp

lemma substring_length: "length (substring s a b) \<le> nat b - nat a"
  by (simp add: substring_def)

text \<open>
  C5. For each of the four patterns and every markup: the text the extractor hands to
  \<open>JSON.parse\<close> has at most three characters. The brace count is 0 when the scan
  starts at the quote that opens the match, so the loop stops at the next character
  (\<open>endPos = startPos + 2\<close>), and \<open>substring(startPos - 1, endPos)\<close> is the
  character before the match, the quote, and the first letter of the key. No walk
  back to an enclosing brace takes place and no object is recovered.
\<close>

theorem markup_text_three_chars:
  assumes "key \<in> set [''data'', ''vessels'', ''ships'', ''tankers'']"
    and "json_text html key = Some t"
  shows "length t \<le> 3"
proof -
  from assms(2) obtain m where m: "regex_match key html = Some m"
    by (auto simp: json_text_def split: option.splits)
  from regex_match_shape[OF m] obtain ms i where
    ms: "m = CHR 0x22 # key @ ms" and i: "starts_with (drop i html) m" by blast
  from assms(1) obtain k ks where k: "key = k # ks" "k \<noteq> CHR ''{''" "k \<noteq> CHR ''}''"
    by auto
  let ?p = "index_of html m"
  have "starts_with (drop ?p html) m" using index_of_occurs[OF i] ms by simp
  then obtain r where "drop ?p html = m @ r" using starts_with_eq by blast
  then have d: "drop ?p html = CHR 0x22 # k # (ks @ ms @ r)" using ms k by simp
  have e: "brace_scan (drop ?p html) ?p ?p 0 = ?p + 2"
    unfolding d using k by (intro brace_scan_two) simp_all
  from assms(2) m e have "t = substring html (int ?p - 1) (int (?p + 2))"
    by (simp add: json_text_def Let_def)
  then show ?thesis using substring_length[of html "int ?p - 1" "int (?p + 2)"] by simp
qed

lemma html0_text: \<open>json_text html0 ''data'' = Some ''{"d''\<close>
  by code_simp

lemma html0_scan: "html_json parse0 html0 = None"
  by code_simp

theorem markup_text_three_chars_witness:
  \<open>json_text html0 ''data'' = Some ''{"d'' \<and> length ''{"d'' \<le> (3::nat) \<and>
   html_json parse0 html0 = None\<close>
  using markup_text_three_chars[of "''data''" html0] html0_text html0_scan by simp

end
